theory Spec2Isabelle
  imports Complex_Main
begin

section \<open>Python values used by \<open>scripts/script.py\<close>\<close>

text \<open>
  The script has one function with logic, \<open>get_trends_data\<close>. It parses a date, computes
  two windows, and then runs a retry loop around two provider requests. The model below
  follows it line by line. What the Python runtime and its libraries do at each line is
  written out as HOL functions of the same names (\<open>strptime\<close>, \<open>np_mean\<close>, ...).

  Conventions of the embedding:
  \<^item> strings are ASCII texts (\<open>string\<close>);
  \<^item> a \<open>datetime\<close> at midnight is represented by its proleptic Gregorian ordinal, the
    number Python's own date arithmetic works on (\<open>toordinal\<close>); day 1 is 0001-01-01 and
    day 3652059 is 9999-12-31;
  \<^item> \<open>float\<close> values are modelled by real numbers, with one extra value for \<open>float('inf')\<close>
    where the script can produce it: rounding error of IEEE doubles is not modelled;
  \<^item> an exception is a value of type \<open>exn\<close>; a computation that may raise returns
    \<open>exn + 'a\<close> with \<open>Inl\<close> for the exception.
\<close>

subsection \<open>Exceptions\<close>

text \<open>
  \<open>except Exception\<close> (line 157) catches every exception class derived from
  \<open>Exception\<close>; \<open>KeyboardInterrupt\<close>, \<open>SystemExit\<close> and other classes derived only from
  \<open>BaseException\<close> pass through it. The bare \<open>except:\<close> of line 74 catches everything.
  \<open>OtherException\<close> stands for whatever exception class the provider's client raises; its
  flag says whether that class derives from \<open>Exception\<close>, its text is \<open>str(e)\<close>.
\<close>

datatype exn =
    ValueError string
  | OverflowError string
  | UnboundLocalError string
  | OtherException bool string

fun is_Exception :: "exn \<Rightarrow> bool" where
  "is_Exception (OtherException derived _) = derived"
| "is_Exception _ = True"

fun str_exn :: "exn \<Rightarrow> string" where
  "str_exn (ValueError m) = m"
| "str_exn (OverflowError m) = m"
| "str_exn (UnboundLocalError v) =
     ''cannot access local variable '' @ [CHR 0x27] @ v @ [CHR 0x27] @
     '' where it is not associated with a value''"
| "str_exn (OtherException _ m) = m"

subsection \<open>Decimal text\<close>

definition digit_char :: "nat \<Rightarrow> char" where
  "digit_char d = ''0123456789'' ! (d mod 10)"

fun str_nat :: "nat \<Rightarrow> string" where
  "str_nat n = (if n < 10 then [digit_char n] else str_nat (n div 10) @ [digit_char n])"

declare str_nat.simps [simp del]

definition str_int :: "int \<Rightarrow> string" where
  "str_int i = (if i < 0 then CHR ''-'' # str_nat (nat (- i)) else str_nat (nat i))"

text \<open>\<open>'%04d'\<close> and \<open>'%02d'\<close>: zero padding on the left up to a width.\<close>

definition zero_pad :: "nat \<Rightarrow> nat \<Rightarrow> string" where
  "zero_pad w n = replicate (w - length (str_nat n)) CHR ''0'' @ str_nat n"

definition is_digit :: "char \<Rightarrow> bool" where
  "is_digit c = (c \<in> set ''0123456789'')"

definition digit_val :: "char \<Rightarrow> nat" where
  "digit_val c = of_char c - 48"

subsection \<open>Calendar arithmetic of the \<open>datetime\<close> module\<close>

definition MAXORDINAL :: int where
  "MAXORDINAL = 3652059"

definition is_leap :: "int \<Rightarrow> bool" where
  "is_leap year = (year mod 4 = 0 \<and> (year mod 100 \<noteq> 0 \<or> year mod 400 = 0))"

definition days_before_year :: "int \<Rightarrow> int" where
  "days_before_year year =
     (let y = year - 1 in y * 365 + y div 4 - y div 100 + y div 400)"

definition DAYS_IN_MONTH :: "int list" where
  "DAYS_IN_MONTH = [-1, 31, 28, 31, 30, 31, 30, 31, 31, 30, 31, 30, 31]"

definition DAYS_BEFORE_MONTH :: "int list" where
  "DAYS_BEFORE_MONTH = [-1, 0, 31, 59, 90, 120, 151, 181, 212, 243, 273, 304, 334]"

definition days_in_month :: "int \<Rightarrow> int \<Rightarrow> int" where
  "days_in_month year month =
     (if month = 2 \<and> is_leap year then 29 else DAYS_IN_MONTH ! nat month)"

definition days_before_month :: "int \<Rightarrow> int \<Rightarrow> int" where
  "days_before_month year month =
     DAYS_BEFORE_MONTH ! nat month + (if month > 2 \<and> is_leap year then 1 else 0)"

definition ymd2ord :: "int \<Rightarrow> int \<Rightarrow> int \<Rightarrow> int" where
  "ymd2ord year month day =
     days_before_year year + days_before_month year month + day"

text \<open>
  \<open>_ord2ymd\<close>: the inverse, by 400-, 100-, 4- and 1-year cycles and an estimate of the
  month that is corrected when it is one too large.
\<close>

definition ord2ymd :: "int \<Rightarrow> int \<times> int \<times> int" where
  "ord2ymd ordinal =
     (let n = ordinal - 1;
          n400 = n div 146097; n = n mod 146097;
          n100 = n div 36524; n = n mod 36524;
          n4 = n div 1461; n = n mod 1461;
          n1 = n div 365; n = n mod 365;
          year = n400 * 400 + 1 + n100 * 100 + n4 * 4 + n1
      in if n1 = 4 \<or> n100 = 4 then (year - 1, 12, 31)
         else
           let leapyear = (n1 = 3 \<and> (n4 \<noteq> 24 \<or> n100 = 3));
               month = (n + 50) div 32;
               preceding = DAYS_BEFORE_MONTH ! nat month +
                           (if month > 2 \<and> leapyear then 1 else 0)
           in if preceding > n
              then
                let month = month - 1;
                    preceding = preceding -
                      (DAYS_IN_MONTH ! nat month + (if month = 2 \<and> leapyear then 1 else 0))
                in (year, month, n - preceding + 1)
              else (year, month, n - preceding + 1))"

text \<open>
  \<open>datetime + timedelta(days=k)\<close> and \<open>datetime - timedelta(days=k)\<close>: the ordinal moves by
  \<open>k\<close>; a result outside \<open>1 .. MAXORDINAL\<close> raises \<open>OverflowError\<close>.
\<close>

definition add_days :: "int \<Rightarrow> int \<Rightarrow> exn + int" where
  "add_days d k =
     (if 0 < d + k \<and> d + k \<le> MAXORDINAL then Inr (d + k)
      else Inl (OverflowError ''date value out of range''))"

text \<open>\<open>d.strftime('%Y-%m-%d')\<close>, with the year written on four digits.\<close>

definition strftime :: "int \<Rightarrow> string" where
  "strftime d =
     (case ord2ymd d of
        (y, m, dd) \<Rightarrow> zero_pad 4 (nat y) @ ''-'' @ zero_pad 2 (nat m) @ ''-'' @ zero_pad 2 (nat dd))"

subsection \<open>\<open>datetime.strptime(text, '%Y-%m-%d')\<close>\<close>

text \<open>
  The format is compiled to the regular expression
  \<^verbatim>\<open>(?P<Y>\d\d\d\d)-(?P<m>1[0-2]|0[1-9]|[1-9])-(?P<d>3[0-1]|[1-2]\d|0[1-9]|[1-9]| [1-9])\<close>
  and matched at the start of the text. Each \<open>match_\<close> function returns the ways its
  group can match a prefix, in the order the alternatives are tried, each with the group's
  value and the rest of the text; backtracking is the order of that list. Text left over
  after the match, no match at all, and a day that the month does not have all raise
  \<open>ValueError\<close>, which \<open>strptime\<close> reports as \<open>None\<close> paired with no date.
\<close>

fun match_Y :: "string \<Rightarrow> (int \<times> string) list" where
  "match_Y (a # b # c # d # rest) =
     (if is_digit a \<and> is_digit b \<and> is_digit c \<and> is_digit d
      then [(int (1000 * digit_val a + 100 * digit_val b + 10 * digit_val c + digit_val d), rest)]
      else [])"
| "match_Y _ = []"

definition alt2 :: "char set \<Rightarrow> char set \<Rightarrow> string \<Rightarrow> (int \<times> string) list" where
  "alt2 A B s =
     (case s of
        a # b # rest \<Rightarrow>
          (if a \<in> A \<and> b \<in> B
           then [(if a = CHR '' '' then int (digit_val b)
                  else int (10 * digit_val a + digit_val b), rest)]
           else [])
      | _ \<Rightarrow> [])"

definition alt1 :: "char set \<Rightarrow> string \<Rightarrow> (int \<times> string) list" where
  "alt1 A s =
     (case s of
        a # rest \<Rightarrow> (if a \<in> A then [(int (digit_val a), rest)] else [])
      | _ \<Rightarrow> [])"

definition match_m :: "string \<Rightarrow> (int \<times> string) list" where
  "match_m s =
     alt2 {CHR ''1''} (set ''012'') s @
     alt2 {CHR ''0''} (set ''123456789'') s @
     alt1 (set ''123456789'') s"

definition match_d :: "string \<Rightarrow> (int \<times> string) list" where
  "match_d s =
     alt2 {CHR ''3''} (set ''01'') s @
     alt2 (set ''12'') (set ''0123456789'') s @
     alt2 {CHR ''0''} (set ''123456789'') s @
     alt1 (set ''123456789'') s @
     alt2 {CHR '' ''} (set ''123456789'') s"

definition match_dash :: "string \<Rightarrow> string list" where
  "match_dash s = (case s of c # rest \<Rightarrow> (if c = CHR ''-'' then [rest] else []) | _ \<Rightarrow> [])"

definition regex_matches :: "string \<Rightarrow> ((int \<times> int \<times> int) \<times> string) list" where
  "regex_matches s =
     concat (map (\<lambda>(y, s1).
       concat (map (\<lambda>s2.
         concat (map (\<lambda>(m, s3).
           concat (map (\<lambda>s4.
             map (\<lambda>(d, s5). ((y, m, d), s5)) (match_d s4))
           (match_dash s3)))
         (match_m s2)))
       (match_dash s1)))
     (match_Y s))"

definition strptime :: "string \<Rightarrow> int option" where
  "strptime s =
     (case regex_matches s of
        [] \<Rightarrow> None
      | ((y, m, d), rest) # _ \<Rightarrow>
          (if rest \<noteq> [] then None
           else if y < 1 then None
           else if d > days_in_month y m then None
           else Some (ymd2ord y m d)))"

section \<open>The provider, the clock and the log\<close>

text \<open>
  \<open>pytrends.interest_over_time()\<close> returns a data frame: an index of rows and named
  columns of scores (integers, 0 to 100 in the provider's convention). \<open>df.empty\<close> holds
  when the frame has no row or no column.
\<close>

record frame =
  n_rows :: nat
  columns :: "(string \<times> int list) list"

definition df_empty :: "frame \<Rightarrow> bool" where
  "df_empty df = (n_rows df = 0 \<or> columns df = [])"

text \<open>
  One request is the pair \<open>build_payload(...)\<close>, \<open>interest_over_time()\<close> for a subject and
  a timeframe (geography fixed to \<open>'US'\<close>). The provider is any function from the number
  of requests made before, the subject and the timeframe to an exception or a frame.
  What the function does to the outside world is recorded as a trace of events.
\<close>

type_synonym provider = "nat \<Rightarrow> string \<Rightarrow> string \<Rightarrow> exn + frame"

datatype event =
    Request string string
  | Sleep nat
  | LogInfo string
  | LogWarning string
  | LogError string

fun is_Request :: "event \<Rightarrow> bool" where
  "is_Request (Request _ _) = True"
| "is_Request _ = False"

definition request :: "provider \<Rightarrow> string \<Rightarrow> string \<Rightarrow> event list \<Rightarrow> (exn + frame) \<times> event list" where
  "request prov title timeframe tr =
     (prov (length (filter is_Request tr)) title timeframe, tr @ [Request title timeframe])"

section \<open>Statistics\<close>

text \<open>
  \<open>np.mean\<close>, \<open>np.max\<close>, \<open>np.min\<close> and \<open>np.std\<close> (the population standard deviation) of
  an array of integer scores. On an empty array \<open>np.max\<close> and \<open>np.min\<close> raise
  \<open>ValueError\<close>; \<open>np.mean\<close> returns \<open>nan\<close> there, which the script never gets to use,
  because \<open>np.max\<close> is called next.
\<close>

definition np_mean :: "int list \<Rightarrow> real" where
  "np_mean xs = real_of_int (sum_list xs) / real (length xs)"

fun np_max :: "int list \<Rightarrow> exn + int" where
  "np_max [] = Inl (ValueError ''zero-size array to reduction operation maximum which has no identity'')"
| "np_max (x # xs) = Inr (fold max xs x)"

fun np_min :: "int list \<Rightarrow> exn + int" where
  "np_min [] = Inl (ValueError ''zero-size array to reduction operation minimum which has no identity'')"
| "np_min (x # xs) = Inr (fold min xs x)"

definition np_std :: "int list \<Rightarrow> real" where
  "np_std xs =
     sqrt (sum_list (map (\<lambda>x. (real_of_int x - np_mean xs)\<^sup>2) xs) / real (length xs))"

text \<open>
  \<open>percent_change\<close> is the one number of the script that can be \<open>float('inf')\<close>.
\<close>

datatype pct = Finite real | Infinity

text \<open>
  \<open>round(x, 2)\<close>: the nearest multiple of 0.01, ties to the even one; \<open>round(inf, 2)\<close>
  is \<open>inf\<close>.
\<close>

definition round_half_even :: "real \<Rightarrow> int" where
  "round_half_even x =
     (let f = \<lfloor>x\<rfloor>; d = x - of_int f
      in if d < 1 / 2 then f else if 1 / 2 < d then f + 1 else if even f then f else f + 1)"

definition round2 :: "real \<Rightarrow> real" where
  "round2 x = of_int (round_half_even (x * 100)) / 100"

fun round2_pct :: "pct \<Rightarrow> pct" where
  "round2_pct (Finite x) = Finite (round2 x)"
| "round2_pct Infinity = Infinity"

section \<open>The result dictionary\<close>

text \<open>
  The dictionary \<open>get_trends_data\<close> returns. A value \<open>None\<close> of Python is \<open>None\<close> here;
  the key \<open>'error'\<close> exists only in the failure dictionary, so \<open>error r = None\<close> says
  that the key is absent.
\<close>

record result =
  book_title :: string
  ban_date :: string
  avg_search_before :: "real option"
  avg_search_after :: "real option"
  max_search_before :: "int option"
  max_search_after :: "int option"
  min_search_before :: "int option"
  min_search_after :: "int option"
  percent_change :: "pct option"
  absolute_change :: "real option"
  volatility :: "real option"
  data_collected :: string
  collection_successful :: bool
  error :: "string option"

text \<open>Lines 141 to 155.\<close>

definition success_result ::
  "string \<Rightarrow> string \<Rightarrow> real \<Rightarrow> real \<Rightarrow> int \<Rightarrow> int \<Rightarrow> int \<Rightarrow> int \<Rightarrow> pct \<Rightarrow> real \<Rightarrow> real \<Rightarrow> string \<Rightarrow> result" where
  "success_result title ban_date_str before_avg after_avg before_max after_max
       before_min after_min pc ac vol now =
     \<lparr> book_title = title,
       ban_date = ban_date_str,
       avg_search_before = Some (round2 before_avg),
       avg_search_after = Some (round2 after_avg),
       max_search_before = Some before_max,
       max_search_after = Some after_max,
       min_search_before = Some before_min,
       min_search_after = Some after_min,
       percent_change = Some (round2_pct pc),
       absolute_change = Some (round2 ac),
       volatility = Some (round2 vol),
       data_collected = now,
       collection_successful = True,
       error = None \<rparr>"

text \<open>Lines 163 to 178.\<close>

definition failure_result :: "string \<Rightarrow> string \<Rightarrow> exn \<Rightarrow> string \<Rightarrow> result" where
  "failure_result title ban_date_str e now =
     \<lparr> book_title = title,
       ban_date = ban_date_str,
       avg_search_before = None,
       avg_search_after = None,
       max_search_before = None,
       max_search_after = None,
       min_search_before = None,
       min_search_after = None,
       percent_change = None,
       absolute_change = None,
       volatility = None,
       data_collected = now,
       collection_successful = False,
       error = Some (str_exn e) \<rparr>"

section \<open>One attempt (lines 90 to 155)\<close>

text \<open>
  The two names \<open>before_values\<close> and \<open>after_values\<close> are local variables of the whole
  function: they are assigned only in the branch that finds data (lines 105 and 120), and
  a binding made in one attempt is still there in the next. \<open>None\<close> is an unbound name.
\<close>

record locals =
  before_values :: "int list option"
  after_values :: "int list option"

definition no_locals :: locals where
  "no_locals = \<lparr> before_values = None, after_values = None \<rparr>"

text \<open>
  Lines 104 to 110 (and 119 to 125): the statistics of one window. The first component is
  the binding of the values variable afterwards; it is assigned before \<open>np.max\<close> can raise.
\<close>

definition window_stats ::
  "string \<Rightarrow> frame \<Rightarrow> int list option \<Rightarrow> int list option \<times> (exn + real \<times> int \<times> int)" where
  "window_stats title df bound =
     (if df_empty df then (bound, Inr (0, 0, 0))
      else
        (case map_of (columns df) title of
           None \<Rightarrow> (bound, Inr (0, 0, 0))
         | Some vals \<Rightarrow>
             (case np_max vals of
                Inl e \<Rightarrow> (Some vals, Inl e)
              | Inr mx \<Rightarrow>
                  (case np_min vals of
                     Inl e \<Rightarrow> (Some vals, Inl e)
                   | Inr mn \<Rightarrow> (Some vals, Inr (np_mean vals, mx, mn))))))"

text \<open>Lines 128 to 133: \<open>(percent_change, absolute_change)\<close>.\<close>

definition change_metrics :: "real \<Rightarrow> real \<Rightarrow> pct \<times> real" where
  "change_metrics before_avg after_avg =
     (if before_avg > 0
      then (Finite (((after_avg - before_avg) / before_avg) * 100), after_avg - before_avg)
      else ((if after_avg = 0 then Finite 0 else Infinity), after_avg))"

text \<open>
  Lines 136 and 137. \<open>list(before_values) + list(after_values)\<close> reads \<open>before_values\<close>
  first; reading an unbound local variable raises \<open>UnboundLocalError\<close>, a \<open>NameError\<close>.
\<close>

definition pooled_volatility :: "locals \<Rightarrow> exn + real" where
  "pooled_volatility lc =
     (case before_values lc of
        None \<Rightarrow> Inl (UnboundLocalError ''before_values'')
      | Some bv \<Rightarrow>
          (case after_values lc of
             None \<Rightarrow> Inl (UnboundLocalError ''after_values'')
           | Some av \<Rightarrow>
               (let all_values = bv @ av
                in Inr (if length all_values > 0 then np_std all_values else 0))))"

definition attempt_round ::
  "provider \<Rightarrow> string \<Rightarrow> string \<Rightarrow> string \<Rightarrow> string \<Rightarrow> string \<Rightarrow> locals \<Rightarrow> event list
     \<Rightarrow> (exn + result) \<times> locals \<times> event list" where
  "attempt_round prov now title ban_date_str before_timeframe after_timeframe lc tr =
     (case request prov title before_timeframe tr of
        (Inl e, tr1) \<Rightarrow> (Inl e, lc, tr1)
      | (Inr before_df, tr1) \<Rightarrow>
          (case window_stats title before_df (before_values lc) of
             (bv, Inl e) \<Rightarrow> (Inl e, lc\<lparr>before_values := bv\<rparr>, tr1)
           | (bv, Inr (before_avg, before_max, before_min)) \<Rightarrow>
               (let lc1 = lc\<lparr>before_values := bv\<rparr>;
                    tr2 = tr1 @ [Sleep 12]
                in case request prov title after_timeframe tr2 of
                     (Inl e, tr3) \<Rightarrow> (Inl e, lc1, tr3)
                   | (Inr after_df, tr3) \<Rightarrow>
                       (case window_stats title after_df (after_values lc1) of
                          (av, Inl e) \<Rightarrow> (Inl e, lc1\<lparr>after_values := av\<rparr>, tr3)
                        | (av, Inr (after_avg, after_max, after_min)) \<Rightarrow>
                            (let lc2 = lc1\<lparr>after_values := av\<rparr>;
                                 (pc, ac) = change_metrics before_avg after_avg
                             in case pooled_volatility lc2 of
                                  Inl e \<Rightarrow> (Inl e, lc2, tr3)
                                | Inr vol \<Rightarrow>
                                    (Inr (success_result title ban_date_str before_avg after_avg
                                            before_max after_max before_min after_min pc ac vol now),
                                     lc2,
                                     tr3 @ [LogInfo (''Successfully collected data for: '' @ title)]))))))"

section \<open>The retry loop (lines 89 and 157 to 178)\<close>

text \<open>
  \<open>for attempt in range(retries)\<close>: the list of attempt numbers still to run. When the list
  is exhausted without a \<open>return\<close> the function falls off its end, and Python returns
  \<open>None\<close>. An exception that \<open>except Exception\<close> does not catch leaves the function.
\<close>

fun retry_loop ::
  "provider \<Rightarrow> string \<Rightarrow> string \<Rightarrow> string \<Rightarrow> string \<Rightarrow> string \<Rightarrow> int \<Rightarrow> int list \<Rightarrow> locals
     \<Rightarrow> event list \<Rightarrow> (exn + result option) \<times> event list" where
  "retry_loop prov now title ban_date_str btf atf retries [] lc tr = (Inr None, tr)"
| "retry_loop prov now title ban_date_str btf atf retries (attempt # rest) lc tr =
     (case attempt_round prov now title ban_date_str btf atf lc tr of
        (Inr r, lc', tr') \<Rightarrow> (Inr (Some r), tr')
      | (Inl e, lc', tr') \<Rightarrow>
          (if \<not> is_Exception e then (Inl e, tr')
           else if attempt < retries - 1
           then retry_loop prov now title ban_date_str btf atf retries rest lc'
                  (tr' @ [LogWarning (''Attempt '' @ str_int (attempt + 1) @ '' failed for '' @
                            title @ '': '' @ str_exn e @ ''. Retrying...''),
                          Sleep 20])
           else (Inr (Some (failure_result title ban_date_str e now)),
                 tr' @ [LogError (''All attempts failed for '' @ title @ '': '' @ str_exn e)])))"

definition py_range :: "int \<Rightarrow> int list" where
  "py_range n = map int [0..<nat n]"

section \<open>\<open>get_trends_data\<close> (lines 58 to 178)\<close>

text \<open>Lines 79 to 82: the four window bounds, in the order the script computes them.\<close>

definition compute_windows :: "int \<Rightarrow> exn + (int \<times> int) \<times> (int \<times> int)" where
  "compute_windows ban_dt =
     (case add_days ban_dt (- 90) of
        Inl e \<Rightarrow> Inl e
      | Inr before_start \<Rightarrow>
          (case add_days ban_dt (- 1) of
             Inl e \<Rightarrow> Inl e
           | Inr before_end \<Rightarrow>
               (case add_days ban_dt 1 of
                  Inl e \<Rightarrow> Inl e
                | Inr after_start \<Rightarrow>
                    (case add_days ban_dt 90 of
                       Inl e \<Rightarrow> Inl e
                     | Inr after_end \<Rightarrow>
                         Inr ((before_start, before_end), (after_start, after_end))))))"

text \<open>Lines 85 and 86.\<close>

definition timeframe :: "int \<times> int \<Rightarrow> string" where
  "timeframe w = strftime (fst w) @ '' '' @ strftime (snd w)"

text \<open>
  The result is the pair of the outcome and the trace. The outcome is \<open>Inl e\<close> when the
  exception \<open>e\<close> leaves the function, \<open>Inr None\<close> when it returns \<open>None\<close> and
  \<open>Inr (Some r)\<close> when it returns the dictionary \<open>r\<close>. \<open>now\<close> is the text that
  \<open>datetime.now().strftime(...)\<close> gives; \<open>ban_dt\<close> is the script's local \<open>ban_date\<close>
  (the name \<open>ban_date\<close> is the dictionary key here).
\<close>

definition get_trends_data ::
  "provider \<Rightarrow> string \<Rightarrow> string \<Rightarrow> string \<Rightarrow> int \<Rightarrow> (exn + result option) \<times> event list" where
  "get_trends_data prov now title ban_date_str retries =
     (case strptime ban_date_str of
        None \<Rightarrow>
          (Inr None,
           [LogError (''Invalid date format for '' @ title @ '': '' @ ban_date_str)])
      | Some ban_dt \<Rightarrow>
          (case compute_windows ban_dt of
             Inl e \<Rightarrow> (Inl e, [])
           | Inr (before_w, after_w) \<Rightarrow>
               retry_loop prov now title ban_date_str (timeframe before_w) (timeframe after_w)
                 retries (py_range retries) no_locals []))"

section \<open>Notions of the specification and sample providers\<close>

text \<open>
  The observations a response holds for a subject, in the specification's words: the
  scores under the subject's own column, none when the response is empty or has no such
  column. The specification's summary of a window is the mean, maximum and minimum of its
  observations, all three 0 when there is none.
\<close>

definition observations :: "string \<Rightarrow> frame \<Rightarrow> int list" where
  "observations title df =
     (if df_empty df then []
      else (case map_of (columns df) title of None \<Rightarrow> [] | Some vals \<Rightarrow> vals))"

definition spec_average :: "int list \<Rightarrow> real" where
  "spec_average obs = (if obs = [] then 0 else np_mean obs)"

definition spec_maximum :: "int list \<Rightarrow> int" where
  "spec_maximum obs = (case obs of [] \<Rightarrow> 0 | x # xs \<Rightarrow> fold max xs x)"

definition spec_minimum :: "int list \<Rightarrow> int" where
  "spec_minimum obs = (case obs of [] \<Rightarrow> 0 | x # xs \<Rightarrow> fold min xs x)"

text \<open>The number of requests and of long (20 unit) delays in a trace.\<close>

definition requests_made :: "event list \<Rightarrow> nat" where
  "requests_made tr = length (filter is_Request tr)"

definition long_delays :: "event list \<Rightarrow> nat" where
  "long_delays tr = length (filter (\<lambda>ev. ev = Sleep 20) tr)"

text \<open>
  The state in which attempt number \<open>j\<close> starts when every attempt before it ended in an
  exception that the handler of line 157 caught with attempts remaining: the loop's
  bindings of the two values variables and the trace so far.
\<close>

fun attempt_state ::
  "provider \<Rightarrow> string \<Rightarrow> string \<Rightarrow> string \<Rightarrow> string \<Rightarrow> string \<Rightarrow> nat \<Rightarrow> locals \<times> event list" where
  "attempt_state prov now title ban_date_str btf atf 0 = (no_locals, [])"
| "attempt_state prov now title ban_date_str btf atf (Suc j) =
     (case attempt_state prov now title ban_date_str btf atf j of
        (lc, tr) \<Rightarrow>
          (case attempt_round prov now title ban_date_str btf atf lc tr of
             (Inl e, lc', tr') \<Rightarrow>
               (lc', tr' @ [LogWarning (''Attempt '' @ str_int (int j + 1) @ '' failed for '' @
                               title @ '': '' @ str_exn e @ ''. Retrying...''),
                            Sleep 20])
           | (Inr r, lc', tr') \<Rightarrow> (lc', tr')))"

text \<open>The outcome of attempt number \<open>j\<close>, run from that state.\<close>

definition attempt_at ::
  "provider \<Rightarrow> string \<Rightarrow> string \<Rightarrow> string \<Rightarrow> string \<Rightarrow> string \<Rightarrow> nat
     \<Rightarrow> (exn + result) \<times> locals \<times> event list" where
  "attempt_at prov now title ban_date_str btf atf j =
     (case attempt_state prov now title ban_date_str btf atf j of
        (lc, tr) \<Rightarrow> attempt_round prov now title ban_date_str btf atf lc tr)"

text \<open>
  The frame the provider's client builds from a list of scores: the subject's column and
  the column \<open>isPartial\<close>, one row per score. Without scores it is the empty frame.
\<close>

definition scores_frame :: "string \<Rightarrow> int list \<Rightarrow> frame" where
  "scores_frame title xs =
     (if xs = [] then \<lparr> n_rows = 0, columns = [] \<rparr>
      else \<lparr> n_rows = length xs, columns = [(title, xs), (''isPartial'', map (\<lambda>_. 0) xs)] \<rparr>)"

text \<open>The scenario of the specification: scores 10, 20, 30 before and 40, 50, 60 after.\<close>

definition provider_scenario :: provider where
  "provider_scenario k title tf =
     Inr (scores_frame title (if even k then [10, 20, 30] else [40, 50, 60]))"

text \<open>A provider that is throttled for the first two requests and answers from the third.\<close>

definition provider_flaky :: provider where
  "provider_flaky k title tf =
     (if k < 2 then Inl (OtherException True (''throttled, request '' @ str_nat k))
      else Inr (scores_frame title (if even k then [10, 20, 30] else [40, 50, 60])))"

text \<open>A provider that fails every request, each time with its own text.\<close>

definition provider_down :: provider where
  "provider_down k title tf = Inl (OtherException True (''timeout, request '' @ str_nat k))"

text \<open>A provider with no data for the window before the event.\<close>

definition provider_empty_before :: provider where
  "provider_empty_before k title tf =
     Inr (scores_frame title (if even k then [] else [40, 50, 60]))"

text \<open>
  A provider that answers the first request with 10, 20, 30, fails the second, has no
  data for the third and answers 40, 50, 60 from the fourth.
\<close>

definition provider_stale :: provider where
  "provider_stale k title tf =
     (if k = 0 then Inr (scores_frame title [10, 20, 30])
      else if k = 1 then Inl (OtherException True ''throttled'')
      else if k = 2 then Inr (scores_frame title [])
      else Inr (scores_frame title [40, 50, 60]))"

text \<open>A request interrupted from the keyboard: \<open>KeyboardInterrupt\<close> is no \<open>Exception\<close>.\<close>

definition provider_interrupted :: provider where
  "provider_interrupted k title tf = Inl (OtherException False ''KeyboardInterrupt'')"

text \<open>
  The condition under which lines 110 and 125 run: the response is empty or has no column
  for the subject.
\<close>

definition no_data :: "string \<Rightarrow> frame \<Rightarrow> bool" where
  "no_data title df = (df_empty df \<or> map_of (columns df) title = None)"

text \<open>
  All nine numeric fields of a dictionary present, and all nine absent.
\<close>

definition all_numeric_present :: "result \<Rightarrow> bool" where
  "all_numeric_present r =
     (avg_search_before r \<noteq> None \<and> avg_search_after r \<noteq> None \<and>
      max_search_before r \<noteq> None \<and> max_search_after r \<noteq> None \<and>
      min_search_before r \<noteq> None \<and> min_search_after r \<noteq> None \<and>
      percent_change r \<noteq> None \<and> absolute_change r \<noteq> None \<and> volatility r \<noteq> None)"

definition all_numeric_absent :: "result \<Rightarrow> bool" where
  "all_numeric_absent r =
     (avg_search_before r = None \<and> avg_search_after r = None \<and>
      max_search_before r = None \<and> max_search_after r = None \<and>
      min_search_before r = None \<and> min_search_after r = None \<and>
      percent_change r = None \<and> absolute_change r = None \<and> volatility r = None)"

text \<open>
  A number with at most two decimal places: a whole number of hundredths. \<open>float('inf')\<close>
  is what \<open>round(inf, 2)\<close> returns, so it counts as rounded.
\<close>

definition two_decimals :: "real \<Rightarrow> bool" where
  "two_decimals x = (of_int \<lfloor>x * 100\<rfloor> = x * 100)"

fun two_decimals_pct :: "pct \<Rightarrow> bool" where
  "two_decimals_pct (Finite x) = two_decimals x"
| "two_decimals_pct Infinity = True"

text \<open>Whether an outcome of \<open>get_trends_data\<close> is a returned dictionary.\<close>

fun returns_record :: "exn + result option \<Rightarrow> bool" where
  "returns_record (Inr (Some r)) = True"
| "returns_record _ = False"

section \<open>Facts about one attempt\<close>

lemma requests_made_simps [simp]:
  "requests_made [] = 0"
  "requests_made (tr @ [ev]) = (if is_Request ev then Suc (requests_made tr) else requests_made tr)"
  "requests_made (ev # tr) = (if is_Request ev then Suc (requests_made tr) else requests_made tr)"
  by (simp_all add: requests_made_def)

lemma long_delays_simps [simp]:
  "long_delays [] = 0"
  "long_delays (tr @ tr') = long_delays tr + long_delays tr'"
  "long_delays (ev # tr) = (if ev = Sleep 20 then Suc (long_delays tr) else long_delays tr)"
  by (simp_all add: long_delays_def)

lemma window_stats_Inr:
  assumes "window_stats title df bound = (bv, Inr (avg, mx, mn))"
  shows "avg = spec_average (observations title df) \<and>
         mx = spec_maximum (observations title df) \<and>
         mn = spec_minimum (observations title df) \<and>
         bv = (if observations title df = [] then bound else Some (observations title df))"
  using assms
  by (auto simp: window_stats_def observations_def spec_average_def spec_maximum_def
        spec_minimum_def split: if_splits option.splits sum.splits list.splits)

lemma window_stats_no_data:
  assumes "observations title df = []"
  shows "\<exists>res. window_stats title df bound = (bound, Inr (0, 0, 0)) \<or>
               window_stats title df bound = (Some [], Inl res)"
  using assms
  by (auto simp: window_stats_def observations_def split: if_splits option.splits)

lemma window_stats_exn:
  assumes "window_stats title df bound = (bv, Inl e)"
  shows "is_Exception e"
  using assms
  by (auto simp: window_stats_def split: if_splits option.splits sum.splits list.splits elim: np_max.elims np_min.elims)

lemma pooled_volatility_exn:
  assumes "pooled_volatility lc = Inl e"
  shows "is_Exception e"
  using assms by (auto simp: pooled_volatility_def split: option.splits)

lemma attempt_round_success:
  assumes "attempt_round prov now title ds btf atf lc tr = (Inr r, lc', tr')"
  shows "\<exists>bdf adf bavg bmx bmn aavg amx amn bv av vol.
     prov (requests_made tr) title btf = Inr bdf \<and>
     prov (Suc (requests_made tr)) title atf = Inr adf \<and>
     window_stats title bdf (before_values lc) = (bv, Inr (bavg, bmx, bmn)) \<and>
     window_stats title adf (after_values lc) = (av, Inr (aavg, amx, amn)) \<and>
     pooled_volatility \<lparr> before_values = bv, after_values = av \<rparr> = Inr vol \<and>
     r = success_result title ds bavg aavg bmx amx bmn amn
           (fst (change_metrics bavg aavg)) (snd (change_metrics bavg aavg)) vol now \<and>
     lc' = \<lparr> before_values = bv, after_values = av \<rparr> \<and>
     tr' = tr @ [Request title btf, Sleep 12, Request title atf,
                 LogInfo (''Successfully collected data for: '' @ title)]"
  using assms
  unfolding attempt_round_def request_def requests_made_def
  by (cases lc) (auto simp: Let_def split: sum.splits prod.splits)

lemma attempt_round_exn:
  assumes "attempt_round prov now title ds btf atf lc tr = (Inl e, lc', tr')"
    and "\<forall>k tf e'. prov k title tf = Inl e' \<longrightarrow> is_Exception e'"
  shows "is_Exception e"
  using assms
  unfolding attempt_round_def request_def
  by (auto simp: Let_def split: sum.splits prod.splits dest: window_stats_exn pooled_volatility_exn)

lemma attempt_round_trace:
  assumes "attempt_round prov now title ds btf atf lc tr = (out, lc', tr')"
  shows "long_delays tr' = long_delays tr \<and>
         (\<exists>new. tr' = tr @ new \<and>
            set (filter is_Request new) \<subseteq> {Request title btf, Request title atf})"
  using assms
  unfolding attempt_round_def request_def
  by (auto simp: Let_def split: sum.splits prod.splits)

section \<open>Facts about the retry loop\<close>

lemma attempt_state_long_delays:
  assumes "\<forall>j<k. \<exists>e. fst (attempt_at prov now title ds btf atf j) = Inl e"
  shows "long_delays (snd (attempt_state prov now title ds btf atf k)) = k"
  using assms
proof (induction k)
  case 0
  show ?case by simp
next
  case (Suc k)
  obtain lc tr where st: "attempt_state prov now title ds btf atf k = (lc, tr)"
    by (cases "attempt_state prov now title ds btf atf k")
  from Suc.prems obtain e where "fst (attempt_at prov now title ds btf atf k) = Inl e"
    by auto
  then obtain lc' tr' where ar: "attempt_round prov now title ds btf atf lc tr = (Inl e, lc', tr')"
    using st by (cases "attempt_round prov now title ds btf atf lc tr") (auto simp: attempt_at_def)
  have "long_delays tr = k" using Suc.IH Suc.prems st by simp
  moreover have "long_delays tr' = long_delays tr"
    using attempt_round_trace [OF ar] by simp
  ultimately show ?case using st ar by simp
qed

lemma retry_loop_success_at:
  assumes "a \<le> k" and "k < n"
    and "\<forall>j. a \<le> j \<and> j < k \<longrightarrow> (\<exists>e. fst (attempt_at prov now title ds btf atf j) = Inl e \<and> is_Exception e)"
    and "attempt_at prov now title ds btf atf k = (Inr r, lc', tr')"
  shows "retry_loop prov now title ds btf atf (int n) (map int [a..<n])
           (fst (attempt_state prov now title ds btf atf a))
           (snd (attempt_state prov now title ds btf atf a)) = (Inr (Some r), tr')"
  using assms
proof (induction "k - a" arbitrary: a)
  case 0
  then have ak: "a = k" by simp
  obtain lc tr where st: "attempt_state prov now title ds btf atf k = (lc, tr)"
    by (cases "attempt_state prov now title ds btf atf k")
  have ar: "attempt_round prov now title ds btf atf lc tr = (Inr r, lc', tr')"
    using "0.prems"(4) st by (simp add: attempt_at_def)
  have "[k..<n] = k # [Suc k..<n]" using \<open>k < n\<close> by (simp add: upt_conv_Cons)
  then show ?case using ak st ar by simp
next
  case (Suc d)
  then have lt: "a < k" by simp
  obtain lc tr where st: "attempt_state prov now title ds btf atf a = (lc, tr)"
    by (cases "attempt_state prov now title ds btf atf a")
  from Suc.prems(3) lt obtain e where e: "fst (attempt_at prov now title ds btf atf a) = Inl e" "is_Exception e"
    by auto
  then obtain lc1 tr1 where ar: "attempt_round prov now title ds btf atf lc tr = (Inl e, lc1, tr1)"
    using st by (cases "attempt_round prov now title ds btf atf lc tr") (auto simp: attempt_at_def)
  have upt: "[a..<n] = a # [Suc a..<n]" using lt \<open>k < n\<close> by (simp add: upt_conv_Cons)
  have cond: "int a < int n - 1" using lt \<open>k < n\<close> by simp
  have IH: "retry_loop prov now title ds btf atf (int n) (map int [Suc a..<n])
           (fst (attempt_state prov now title ds btf atf (Suc a)))
           (snd (attempt_state prov now title ds btf atf (Suc a))) = (Inr (Some r), tr')"
    using Suc.hyps(1) [of "Suc a"] Suc.hyps(2) Suc.prems lt by auto
  show ?case using st ar e(2) cond IH by (simp add: upt)
qed

lemma retry_loop_all_fail:
  assumes "a < n"
    and "\<forall>j. a \<le> j \<and> j < n \<longrightarrow> (\<exists>e. fst (attempt_at prov now title ds btf atf j) = Inl e \<and> is_Exception e)"
    and "attempt_at prov now title ds btf atf (n - 1) = (Inl e, lc', tr')"
  shows "retry_loop prov now title ds btf atf (int n) (map int [a..<n])
           (fst (attempt_state prov now title ds btf atf a))
           (snd (attempt_state prov now title ds btf atf a)) =
         (Inr (Some (failure_result title ds e now)),
          tr' @ [LogError (''All attempts failed for '' @ title @ '': '' @ str_exn e)])"
  using assms
proof (induction "n - a" arbitrary: a)
  case 0
  then show ?case by simp
next
  case (Suc d)
  obtain lc tr where st: "attempt_state prov now title ds btf atf a = (lc, tr)"
    by (cases "attempt_state prov now title ds btf atf a")
  from Suc.prems(2) \<open>a < n\<close> obtain ea where ea: "fst (attempt_at prov now title ds btf atf a) = Inl ea" "is_Exception ea"
    by auto
  then obtain lc1 tr1 where ar: "attempt_round prov now title ds btf atf lc tr = (Inl ea, lc1, tr1)"
    using st by (cases "attempt_round prov now title ds btf atf lc tr") (auto simp: attempt_at_def)
  have upt: "[a..<n] = a # [Suc a..<n]" using \<open>a < n\<close> by (simp add: upt_conv_Cons)
  show ?case
  proof (cases "Suc a < n")
    case True
    then have cond: "int a < int n - 1" by simp
    have IH: "retry_loop prov now title ds btf atf (int n) (map int [Suc a..<n])
           (fst (attempt_state prov now title ds btf atf (Suc a)))
           (snd (attempt_state prov now title ds btf atf (Suc a))) =
         (Inr (Some (failure_result title ds e now)),
          tr' @ [LogError (''All attempts failed for '' @ title @ '': '' @ str_exn e)])"
      using Suc.hyps(1) [of "Suc a"] Suc.hyps(2) Suc.prems True by auto
    show ?thesis using st ar ea(2) cond IH by (simp add: upt)
  next
    case False
    then have an: "a = n - 1" and ncond: "\<not> int a < int n - 1" using \<open>a < n\<close> by auto
    have "attempt_at prov now title ds btf atf a = (Inl ea, lc1, tr1)"
      using st ar by (simp add: attempt_at_def)
    then have "ea = e" "tr1 = tr'" using Suc.prems(3) an by auto
    then show ?thesis using st ar ea(2) ncond by (simp add: upt)
  qed
qed

lemma retry_loop_result_shape:
  assumes "retry_loop prov now title ds btf atf retries xs lc tr = (Inr (Some r), tr')"
  shows "(\<exists>bavg aavg bmx amx bmn amn pc ac vol.
            r = success_result title ds bavg aavg bmx amx bmn amn pc ac vol now) \<or>
         (\<exists>e. r = failure_result title ds e now)"
  using assms
proof (induction xs arbitrary: lc tr)
  case Nil
  then show ?case by simp
next
  case (Cons attempt rest)
  obtain out lc1 tr1 where ar: "attempt_round prov now title ds btf atf lc tr = (out, lc1, tr1)"
    by (cases "attempt_round prov now title ds btf atf lc tr")
  show ?case
  proof (cases out)
    case (Inr r')
    then have "r = r'" using Cons.prems ar by simp
    then show ?thesis using attempt_round_success [of prov now title ds btf atf lc tr r' lc1 tr1] ar Inr
      by blast
  next
    case (Inl e)
    then show ?thesis using Cons.prems Cons.IH ar
      by (auto split: if_splits)
  qed
qed

lemma retry_loop_returns_record:
  assumes "a < n"
    and "\<forall>k tf e. prov k title tf = Inl e \<longrightarrow> is_Exception e"
  shows "\<exists>r tr'. retry_loop prov now title ds btf atf (int n) (map int [a..<n]) lc tr =
           (Inr (Some r), tr')"
  using assms(1)
proof (induction "n - a" arbitrary: a lc tr)
  case 0
  then show ?case by simp
next
  case (Suc d)
  obtain out lc1 tr1 where ar: "attempt_round prov now title ds btf atf lc tr = (out, lc1, tr1)"
    by (cases "attempt_round prov now title ds btf atf lc tr")
  have upt: "[a..<n] = a # [Suc a..<n]" using \<open>a < n\<close> by (simp add: upt_conv_Cons)
  show ?case
  proof (cases out)
    case (Inr r')
    then show ?thesis using ar by (simp add: upt)
  next
    case (Inl e)
    then have ex: "is_Exception e" using attempt_round_exn [of prov now title ds btf atf lc tr e lc1 tr1] ar assms(2)
      by blast
    show ?thesis
    proof (cases "Suc a < n")
      case True
      then have cond: "int a < int n - 1" by simp
      have "\<exists>r tr'. retry_loop prov now title ds btf atf (int n) (map int [Suc a..<n]) lc1
              (tr1 @ [LogWarning (''Attempt '' @ str_int (int a + 1) @ '' failed for '' @
                            title @ '': '' @ str_exn e @ ''. Retrying...''), Sleep 20]) =
           (Inr (Some r), tr')"
        using Suc.hyps(1) [of "Suc a"] Suc.hyps(2) True by auto
      then show ?thesis using ar Inl ex cond by (simp add: upt)
    next
      case False
      then have "\<not> int a < int n - 1" by simp
      then show ?thesis using ar Inl ex by (simp add: upt)
    qed
  qed
qed

lemma retry_loop_no_escape:
  assumes "\<forall>k tf e. prov k title tf = Inl e \<longrightarrow> is_Exception e"
  shows "\<exists>res tr'. retry_loop prov now title ds btf atf retries xs lc tr = (Inr res, tr')"
proof (induction xs arbitrary: lc tr)
  case Nil
  show ?case by simp
next
  case (Cons attempt rest)
  obtain out lc1 tr1 where ar: "attempt_round prov now title ds btf atf lc tr = (out, lc1, tr1)"
    by (cases "attempt_round prov now title ds btf atf lc tr")
  show ?case
  proof (cases out)
    case (Inr r')
    then show ?thesis using ar by simp
  next
    case (Inl e)
    then have ex: "is_Exception e" using attempt_round_exn [of prov now title ds btf atf lc tr e lc1 tr1] ar assms
      by blast
    then show ?thesis using ar Inl Cons.IH by simp
  qed
qed

lemma retry_loop_requests:
  assumes "retry_loop prov now title ds btf atf retries xs lc tr = (out, tr')"
  shows "\<exists>new. tr' = tr @ new \<and>
           set (filter is_Request new) \<subseteq> {Request title btf, Request title atf}"
  using assms
proof (induction xs arbitrary: lc tr)
  case Nil
  then show ?case by simp
next
  case (Cons attempt rest)
  obtain o1 lc1 tr1 where ar: "attempt_round prov now title ds btf atf lc tr = (o1, lc1, tr1)"
    by (cases "attempt_round prov now title ds btf atf lc tr")
  from attempt_round_trace [OF ar] obtain new1 where
    n1: "tr1 = tr @ new1" "set (filter is_Request new1) \<subseteq> {Request title btf, Request title atf}"
    by blast
  show ?case
  proof (cases o1)
    case (Inr r')
    then have "tr' = tr1" using Cons.prems ar by simp
    then show ?thesis using n1 by blast
  next
    case (Inl e)
    show ?thesis
    proof (cases "is_Exception e \<and> attempt < retries - 1")
      case True
      then have "retry_loop prov now title ds btf atf retries rest lc1
                  (tr1 @ [LogWarning (''Attempt '' @ str_int (attempt + 1) @ '' failed for '' @
                            title @ '': '' @ str_exn e @ ''. Retrying...''), Sleep 20]) = (out, tr')"
        using Cons.prems ar Inl by simp
      from Cons.IH [OF this] obtain new2 where
        n2: "tr' = (tr1 @ [LogWarning (''Attempt '' @ str_int (attempt + 1) @ '' failed for '' @
                            title @ '': '' @ str_exn e @ ''. Retrying...''), Sleep 20]) @ new2"
          "set (filter is_Request new2) \<subseteq> {Request title btf, Request title atf}"
        by blast
      have "tr' = tr @ (new1 @ [LogWarning (''Attempt '' @ str_int (attempt + 1) @ '' failed for '' @
                            title @ '': '' @ str_exn e @ ''. Retrying...''), Sleep 20] @ new2)"
        using n1(1) n2(1) by simp
      moreover have "set (filter is_Request (new1 @ [LogWarning (''Attempt '' @ str_int (attempt + 1) @ '' failed for '' @
                            title @ '': '' @ str_exn e @ ''. Retrying...''), Sleep 20] @ new2))
                      \<subseteq> {Request title btf, Request title atf}"
        using n1(2) n2(2) by auto
      ultimately show ?thesis by blast
    next
      case False
      then have "tr' = tr1 \<or> tr' = tr1 @ [LogError (''All attempts failed for '' @ title @ '': '' @ str_exn e)]"
        using Cons.prems ar Inl by (auto split: if_splits)
      then show ?thesis using n1 by auto
    qed
  qed
qed

lemma get_trends_data_valid:
  assumes "strptime ds = Some D" and "90 < D" and "D + 90 \<le> MAXORDINAL"
  shows "compute_windows D = Inr ((D - 90, D - 1), (D + 1, D + 90))"
    and "get_trends_data prov now title ds retries =
         retry_loop prov now title ds (timeframe (D - 90, D - 1)) (timeframe (D + 1, D + 90))
           retries (py_range retries) no_locals []"
proof -
  show cw: "compute_windows D = Inr ((D - 90, D - 1), (D + 1, D + 90))"
    using assms(2,3) by (simp add: compute_windows_def add_days_def)
  show "get_trends_data prov now title ds retries =
         retry_loop prov now title ds (timeframe (D - 90, D - 1)) (timeframe (D + 1, D + 90))
           retries (py_range retries) no_locals []"
    by (simp add: get_trends_data_def assms(1) cw)
qed

section \<open>Facts about rounding and the standard deviation\<close>

lemma round_half_even_between:
  assumes "of_int k + 1 / 2 < x" and "x < of_int k + 1"
  shows "round_half_even x = k + 1"
proof -
  have "\<lfloor>x\<rfloor> = k" using assms by (intro floor_unique) auto
  then show ?thesis using assms by (simp add: round_half_even_def Let_def)
qed

lemma round_half_even_below:
  assumes "of_int k \<le> x" and "x < of_int k + 1 / 2"
  shows "round_half_even x = k"
proof -
  have "\<lfloor>x\<rfloor> = k" using assms by (intro floor_unique) auto
  then show ?thesis using assms by (simp add: round_half_even_def Let_def)
qed

lemma round_half_even_of_int [simp]: "round_half_even (of_int k) = k"
  by (simp add: round_half_even_def)

lemma round2_hundredths [simp]: "round2 (of_int k / 100) = of_int k / 100"
  by (simp add: round2_def)

lemma round2_of_int [simp]: "round2 (of_int k) = of_int k"
proof -
  have "of_int k * (100 :: real) = of_int (k * 100)" by simp
  then have "round_half_even (of_int k * 100) = k * 100"
    by (simp only: round_half_even_of_int)
  then show ?thesis by (simp add: round2_def)
qed

lemma round2_idem [simp]: "round2 (round2 x) = round2 x"
  by (simp add: round2_def)

lemma round2_zero [simp]: "round2 0 = 0"
  by (simp add: round2_def round_half_even_def)

lemma np_std_scenario: "np_std [10, 20, 30, 40, 50, 60] = sqrt (875 / 3)"
  by (simp add: np_std_def np_mean_def power2_eq_square)

lemma np_std_after_only: "np_std [40, 50, 60] = sqrt (200 / 3)"
  by (simp add: np_std_def np_mean_def power2_eq_square)

lemma round2_volatility_scenario: "round2 (np_std [10, 20, 30, 40, 50, 60]) = 1708 / 100"
proof -
  have lo: "(17075 / 1000 :: real) < sqrt (875 / 3)"
    by (rule real_less_rsqrt) (simp add: power2_eq_square)
  have hi: "sqrt (875 / 3) < (1708 / 100 :: real)"
    by (rule real_less_lsqrt) (simp_all add: power2_eq_square)
  have "round_half_even (sqrt (875 / 3) * 100) = 1707 + 1"
    using lo hi by (intro round_half_even_between) simp_all
  then show ?thesis by (simp add: np_std_scenario round2_def)
qed

lemma round2_volatility_after_only: "round2 (np_std [40, 50, 60]) = 816 / 100"
proof -
  have lo: "(816 / 100 :: real) \<le> sqrt (200 / 3)"
    by (rule real_le_rsqrt) (simp add: power2_eq_square)
  have hi: "sqrt (200 / 3) < (8165 / 1000 :: real)"
    by (rule real_less_lsqrt) (simp_all add: power2_eq_square)
  have "round_half_even (sqrt (200 / 3) * 100) = 816"
    using lo hi by (intro round_half_even_below) simp_all
  then show ?thesis by (simp add: np_std_after_only round2_def)
qed

section \<open>The example date\<close>

lemma strptime_example: "strptime ''2022-09-01'' = Some 738399"
  by code_simp

lemma strptime_malformed: "strptime ''2022-13-40'' = None"
  by code_simp

lemma strptime_year_one: "strptime ''0001-01-15'' = Some 15"
  by code_simp

lemma strptime_last_day: "strptime ''9999-12-31'' = Some 3652059"
  by code_simp

lemma timeframe_before_example: "timeframe (738309, 738398) = ''2022-06-03 2022-08-31''"
  by code_simp

lemma timeframe_after_example: "timeframe (738400, 738489) = ''2022-09-02 2022-11-30''"
  by code_simp

lemma compute_windows_example:
  "compute_windows 738399 = Inr ((738309, 738398), (738400, 738489))"
  by (simp add: compute_windows_def add_days_def MAXORDINAL_def)

lemmas run_example =
  get_trends_data_def strptime_example compute_windows_example timeframe_before_example
  timeframe_after_example py_range_def attempt_round_def request_def window_stats_def
  df_empty_def scores_frame_def pooled_volatility_def change_metrics_def no_locals_def
  np_mean_def Let_def upt_rec str_int_def str_nat.simps digit_char_def

section \<open>More facts about attempts and the loop\<close>

lemma window_stats_of_no_data:
  assumes "no_data title df"
  shows "window_stats title df bound = (bound, Inr (0, 0, 0))"
  using assms by (auto simp: no_data_def window_stats_def)

lemma observations_of_no_data:
  assumes "no_data title df"
  shows "observations title df = []"
  using assms by (auto simp: no_data_def observations_def)

lemma window_stats_of_data:
  assumes "observations title df \<noteq> []"
  shows "window_stats title df bound =
           (Some (observations title df),
            Inr (np_mean (observations title df), spec_maximum (observations title df),
                 spec_minimum (observations title df)))"
  using assms
  by (auto simp: window_stats_def observations_def spec_maximum_def spec_minimum_def
        split: if_splits option.splits list.splits)

lemma attempt_round_of_data:
  assumes "prov (requests_made tr) title btf = Inr bdf" and "observations title bdf \<noteq> []"
    and "prov (Suc (requests_made tr)) title atf = Inr adf" and "observations title adf \<noteq> []"
  shows "\<exists>r lc' tr'. attempt_round prov now title ds btf atf lc tr = (Inr r, lc', tr')"
  using assms
  unfolding attempt_round_def request_def requests_made_def
  by (simp add: window_stats_of_data Let_def pooled_volatility_def split: prod.splits)

lemma attempt_round_unbound_before:
  assumes "prov (requests_made tr) title btf = Inr bdf" and "no_data title bdf"
    and "before_values lc = None"
  shows "\<exists>e lc' tr'. attempt_round prov now title ds btf atf lc tr = (Inl e, lc', tr')"
    and "prov (Suc (requests_made tr)) title atf = Inr adf \<Longrightarrow>
         window_stats title adf (after_values lc) = (av, Inr st) \<Longrightarrow>
         \<exists>lc' tr'. attempt_round prov now title ds btf atf lc tr =
            (Inl (UnboundLocalError ''before_values''), lc', tr')"
  using assms
  unfolding attempt_round_def request_def requests_made_def
  by (auto simp: window_stats_of_no_data Let_def pooled_volatility_def
        split: prod.splits sum.splits)

lemma attempt_round_unbound_after:
  assumes "prov (requests_made tr) title btf = Inr bdf"
    and "window_stats title bdf (before_values lc) = (bv, Inr st)"
    and "prov (Suc (requests_made tr)) title atf = Inr adf" and "no_data title adf"
    and "after_values lc = None"
  shows "\<exists>lc' tr'. attempt_round prov now title ds btf atf lc tr =
            (Inl (UnboundLocalError (if bv = None then ''before_values'' else ''after_values'')),
             lc', tr')"
  using assms
  unfolding attempt_round_def request_def requests_made_def
  by (auto simp: window_stats_of_no_data Let_def pooled_volatility_def
        split: prod.splits sum.splits option.splits)

lemma retry_loop_handler:
  assumes "attempt_round prov now title ds btf atf lc tr = (Inl e, lc', tr')"
    and "is_Exception e"
  shows "retry_loop prov now title ds btf atf retries (attempt # rest) lc tr =
           (if attempt < retries - 1
            then retry_loop prov now title ds btf atf retries rest lc'
                   (tr' @ [LogWarning (''Attempt '' @ str_int (attempt + 1) @ '' failed for '' @
                             title @ '': '' @ str_exn e @ ''. Retrying...''),
                           Sleep 20])
            else (Inr (Some (failure_result title ds e now)),
                  tr' @ [LogError (''All attempts failed for '' @ title @ '': '' @ str_exn e)]))"
  using assms by simp

lemma retry_loop_success_is_attempt:
  assumes "retry_loop prov now title ds btf atf retries xs lc tr = (Inr (Some r), tr')"
    and "collection_successful r"
  shows "\<exists>lc0 tr0 lc1. attempt_round prov now title ds btf atf lc0 tr0 = (Inr r, lc1, tr')"
  using assms
proof (induction xs arbitrary: lc tr)
  case Nil
  then show ?case by simp
next
  case (Cons attempt rest)
  obtain out lc1 tr1 where ar: "attempt_round prov now title ds btf atf lc tr = (out, lc1, tr1)"
    by (cases "attempt_round prov now title ds btf atf lc tr")
  show ?case
  proof (cases out)
    case (Inr r')
    then have "r = r'" "tr' = tr1" using Cons.prems ar by simp_all
    then show ?thesis using ar Inr by blast
  next
    case (Inl e)
    then show ?thesis using Cons.prems Cons.IH ar
      by (auto simp: failure_result_def split: if_splits)
  qed
qed

lemma two_decimals_round2 [simp]: "two_decimals (round2 x)"
  by (simp add: two_decimals_def round2_def)

lemma two_decimals_of_int [simp]: "two_decimals (of_int k)"
proof -
  have "of_int k * (100 :: real) = of_int (k * 100)" by simp
  then show ?thesis unfolding two_decimals_def by (simp only: floor_of_int)
qed

lemma two_decimals_pct_round2 [simp]: "two_decimals_pct (round2_pct p)"
  by (cases p) simp_all

section \<open>Example runs\<close>

lemma run_scenario:
  "get_trends_data provider_scenario ''T'' ''Example Book'' ''2022-09-01'' 3 =
     (Inr (Some (success_result ''Example Book'' ''2022-09-01'' 20 50 30 60 10 40
                   (Finite 150) 30 (np_std [10, 20, 30, 40, 50, 60]) ''T'')),
      [Request ''Example Book'' ''2022-06-03 2022-08-31'', Sleep 12,
       Request ''Example Book'' ''2022-09-02 2022-11-30'',
       LogInfo ''Successfully collected data for: Example Book''])"
  by (simp add: run_example provider_scenario_def)

lemma run_flaky:
  "get_trends_data provider_flaky ''T'' ''Example Book'' ''2022-09-01'' 3 =
     (Inr (Some (success_result ''Example Book'' ''2022-09-01'' 20 50 30 60 10 40
                   (Finite 150) 30 (np_std [10, 20, 30, 40, 50, 60]) ''T'')),
      [Request ''Example Book'' ''2022-06-03 2022-08-31'',
       LogWarning ''Attempt 1 failed for Example Book: throttled, request 0. Retrying...'',
       Sleep 20,
       Request ''Example Book'' ''2022-06-03 2022-08-31'',
       LogWarning ''Attempt 2 failed for Example Book: throttled, request 1. Retrying...'',
       Sleep 20,
       Request ''Example Book'' ''2022-06-03 2022-08-31'', Sleep 12,
       Request ''Example Book'' ''2022-09-02 2022-11-30'',
       LogInfo ''Successfully collected data for: Example Book''])"
  by (simp add: run_example provider_flaky_def)

lemma run_down:
  "get_trends_data provider_down ''T'' ''Example Book'' ''2022-09-01'' 3 =
     (Inr (Some (failure_result ''Example Book'' ''2022-09-01''
                   (OtherException True ''timeout, request 2'') ''T'')),
      [Request ''Example Book'' ''2022-06-03 2022-08-31'',
       LogWarning ''Attempt 1 failed for Example Book: timeout, request 0. Retrying...'',
       Sleep 20,
       Request ''Example Book'' ''2022-06-03 2022-08-31'',
       LogWarning ''Attempt 2 failed for Example Book: timeout, request 1. Retrying...'',
       Sleep 20,
       Request ''Example Book'' ''2022-06-03 2022-08-31'',
       LogError ''All attempts failed for Example Book: timeout, request 2''])"
  by (simp add: run_example provider_down_def)

lemma run_empty_before:
  "get_trends_data provider_empty_before ''T'' ''Example Book'' ''2022-09-01'' 3 =
     (Inr (Some (failure_result ''Example Book'' ''2022-09-01''
                   (UnboundLocalError ''before_values'') ''T'')),
      [Request ''Example Book'' ''2022-06-03 2022-08-31'', Sleep 12,
       Request ''Example Book'' ''2022-09-02 2022-11-30'',
       LogWarning (''Attempt 1 failed for Example Book: '' @
                   str_exn (UnboundLocalError ''before_values'') @ ''. Retrying...''),
       Sleep 20,
       Request ''Example Book'' ''2022-06-03 2022-08-31'', Sleep 12,
       Request ''Example Book'' ''2022-09-02 2022-11-30'',
       LogWarning (''Attempt 2 failed for Example Book: '' @
                   str_exn (UnboundLocalError ''before_values'') @ ''. Retrying...''),
       Sleep 20,
       Request ''Example Book'' ''2022-06-03 2022-08-31'', Sleep 12,
       Request ''Example Book'' ''2022-09-02 2022-11-30'',
       LogError (''All attempts failed for Example Book: '' @
                 str_exn (UnboundLocalError ''before_values''))])"
  by (simp add: run_example provider_empty_before_def)

lemma run_stale:
  "get_trends_data provider_stale ''T'' ''Example Book'' ''2022-09-01'' 3 =
     (Inr (Some (success_result ''Example Book'' ''2022-09-01'' 0 50 0 60 0 40
                   Infinity 50 (np_std [10, 20, 30, 40, 50, 60]) ''T'')),
      [Request ''Example Book'' ''2022-06-03 2022-08-31'', Sleep 12,
       Request ''Example Book'' ''2022-09-02 2022-11-30'',
       LogWarning ''Attempt 1 failed for Example Book: throttled. Retrying...'',
       Sleep 20,
       Request ''Example Book'' ''2022-06-03 2022-08-31'', Sleep 12,
       Request ''Example Book'' ''2022-09-02 2022-11-30'',
       LogInfo ''Successfully collected data for: Example Book''])"
  by (simp add: run_example provider_stale_def)

lemma run_interrupted:
  "get_trends_data provider_interrupted ''T'' ''Example Book'' ''2022-09-01'' 3 =
     (Inl (OtherException False ''KeyboardInterrupt''),
      [Request ''Example Book'' ''2022-06-03 2022-08-31''])"
  by (simp add: run_example provider_interrupted_def)

lemma run_no_attempts:
  "get_trends_data provider_scenario ''T'' ''Example Book'' ''2022-09-01'' 0 = (Inr None, [])"
  by (simp add: run_example)

lemma run_year_one:
  "get_trends_data provider_scenario ''T'' ''Example Book'' ''0001-01-15'' 3 =
     (Inl (OverflowError ''date value out of range''), [])"
  by (simp add: get_trends_data_def strptime_year_one compute_windows_def add_days_def)

lemma compute_windows_overflow:
  assumes "\<not> (90 < D \<and> D + 90 \<le> MAXORDINAL)"
  shows "compute_windows D = Inl (OverflowError ''date value out of range'')"
  using assms by (auto simp: compute_windows_def add_days_def)

section \<open>Claims\<close>

subsection \<open>C2: a date text that does not parse\<close>

text \<open>
  Claim C2, as the code has it. For every event-date text that \<open>strptime\<close> rejects,
  \<open>get_trends_data\<close> returns at once, after one error line in the log that names the
  subject and the text; it makes no provider request and waits for no delay, so no retry
  attempt is used. What it returns is \<open>None\<close>: line 76 is \<open>return None\<close>, and the
  caller \<open>collect_all_books\<close> drops such rows with \<open>if result:\<close>.
\<close>

theorem malformed_date_returns_None:
  assumes "strptime ban_date_str = None"
  shows "get_trends_data prov now title ban_date_str retries =
           (Inr None, [LogError (''Invalid date format for '' @ title @ '': '' @ ban_date_str)]) \<and>
         requests_made (snd (get_trends_data prov now title ban_date_str retries)) = 0 \<and>
         long_delays (snd (get_trends_data prov now title ban_date_str retries)) = 0"
  using assms by (simp add: get_trends_data_def)

theorem malformed_date_returns_None_witness:
  "strptime ''2022-13-40'' = None \<and>
   get_trends_data provider_scenario ''T'' ''Example Book'' ''2022-13-40'' 3 =
     (Inr None, [LogError ''Invalid date format for Example Book: 2022-13-40'']) \<and>
   requests_made (snd (get_trends_data provider_scenario ''T'' ''Example Book'' ''2022-13-40'' 3)) = 0"
  using malformed_date_returns_None [OF strptime_malformed, of provider_scenario "''T''" "''Example Book''" 3]
    strptime_malformed
  by simp

text \<open>
  The claim as stated asks for a failure dictionary here. For the text \<open>2022-13-40\<close> of
  the specification no dictionary is returned.
\<close>

theorem malformed_date_no_failure_record:
  "strptime ''2022-13-40'' = None \<and>
   \<not> returns_record (fst (get_trends_data provider_down ''T'' ''Example Book'' ''2022-13-40'' 3))"
  by (simp add: get_trends_data_def strptime_malformed)

subsection \<open>C6: the two windows\<close>

text \<open>
  Claim C6, as the code has it. For every event date \<open>D\<close> that parses and lies more than
  90 days after 0001-01-01 and at least 90 days before 9999-12-31, the windows are
  before = [D - 90 days, D - 1 day] and after = [D + 1 day, D + 90 days]; each holds
  exactly 90 days counted inclusively, the before window ends before the after window
  starts, after.start - before.end is 2 days, and these are the windows whose texts every
  request of the call carries.
\<close>

theorem windows_of_valid_date:
  assumes "strptime ban_date_str = Some D" and "90 < D" and "D + 90 \<le> MAXORDINAL"
  shows "\<exists>before_start before_end after_start after_end.
           compute_windows D = Inr ((before_start, before_end), (after_start, after_end)) \<and>
           before_start = D - 90 \<and> before_end = D - 1 \<and>
           after_start = D + 1 \<and> after_end = D + 90 \<and>
           before_end - before_start + 1 = 90 \<and>
           after_end - after_start + 1 = 90 \<and>
           before_end < after_start \<and>
           after_start - before_end = 2 \<and>
           get_trends_data prov now title ban_date_str retries =
             retry_loop prov now title ban_date_str
               (timeframe (before_start, before_end)) (timeframe (after_start, after_end))
               retries (py_range retries) no_locals []"
  using get_trends_data_valid [OF assms] by simp

theorem windows_of_valid_date_witness:
  "strptime ''2022-09-01'' = Some 738399 \<and>
   compute_windows 738399 = Inr ((738309, 738398), (738400, 738489)) \<and>
   timeframe (738309, 738398) = ''2022-06-03 2022-08-31'' \<and>
   timeframe (738400, 738489) = ''2022-09-02 2022-11-30''"
  using windows_of_valid_date [OF strptime_example, of provider_scenario "''T''" "''Example Book''" 3]
    strptime_example timeframe_before_example timeframe_after_example
  by (simp add: MAXORDINAL_def)

text \<open>
  The claim as stated covers every valid date. The dates 0001-01-15 and 9999-12-31 parse,
  and \<open>datetime\<close> cannot represent the day 90 days before the first or after the second:
  line 79 (line 82) raises \<open>OverflowError\<close> and no window is computed.
\<close>

theorem windows_out_of_range:
  "strptime ''0001-01-15'' = Some 15 \<and>
   compute_windows 15 = Inl (OverflowError ''date value out of range'') \<and>
   strptime ''9999-12-31'' = Some 3652059 \<and>
   compute_windows 3652059 = Inl (OverflowError ''date value out of range'')"
  by (simp add: strptime_year_one strptime_last_day compute_windows_def add_days_def MAXORDINAL_def)

subsection \<open>C1: what a call ends in\<close>

text \<open>
  Claim C1, as the code has it. Every call ends, and how it ends is decided by the date
  text, the attempt budget and the provider: a text that does not parse gives \<open>None\<close> (no
  exception escapes, no dictionary either); a date whose windows leave the range of
  \<open>datetime\<close> lets \<open>OverflowError\<close> escape from lines 79 to 82, which no \<open>try\<close> covers;
  for every other date, with a provider whose errors all derive from \<open>Exception\<close>, the call
  returns a dictionary (success or failure) when \<open>retries\<close> is at least 1 and \<open>None\<close> when
  it is 0 or negative, and for no behaviour of such a provider does an exception escape.
\<close>

theorem get_trends_data_outcome:
  assumes "\<forall>k tf e. prov k title tf = Inl e \<longrightarrow> is_Exception e"
  shows "(strptime ban_date_str = None \<longrightarrow>
            fst (get_trends_data prov now title ban_date_str retries) = Inr None) \<and>
         (\<forall>D. strptime ban_date_str = Some D \<and> \<not> (90 < D \<and> D + 90 \<le> MAXORDINAL) \<longrightarrow>
            fst (get_trends_data prov now title ban_date_str retries) =
              Inl (OverflowError ''date value out of range'')) \<and>
         (\<forall>D. strptime ban_date_str = Some D \<and> 90 < D \<and> D + 90 \<le> MAXORDINAL \<longrightarrow>
            (0 < retries \<longrightarrow>
               returns_record (fst (get_trends_data prov now title ban_date_str retries))) \<and>
            (retries \<le> 0 \<longrightarrow>
               fst (get_trends_data prov now title ban_date_str retries) = Inr None))"
proof (intro conjI allI impI)
  assume "strptime ban_date_str = None"
  then show "fst (get_trends_data prov now title ban_date_str retries) = Inr None"
    by (simp add: get_trends_data_def)
next
  fix D
  assume "strptime ban_date_str = Some D \<and> \<not> (90 < D \<and> D + 90 \<le> MAXORDINAL)"
  then show "fst (get_trends_data prov now title ban_date_str retries) =
               Inl (OverflowError ''date value out of range'')"
    by (simp add: get_trends_data_def compute_windows_overflow)
next
  fix D
  assume d: "strptime ban_date_str = Some D \<and> 90 < D \<and> D + 90 \<le> MAXORDINAL"
    and pos: "0 < retries"
  have g: "get_trends_data prov now title ban_date_str retries =
         retry_loop prov now title ban_date_str (timeframe (D - 90, D - 1))
           (timeframe (D + 1, D + 90)) retries (py_range retries) no_locals []"
    using d get_trends_data_valid(2) by blast
  have r: "retries = int (nat retries)" and n: "0 < nat retries" using pos by simp_all
  obtain r' tr' where
    "retry_loop prov now title ban_date_str (timeframe (D - 90, D - 1))
       (timeframe (D + 1, D + 90)) (int (nat retries)) (map int [0..<nat retries]) no_locals [] =
     (Inr (Some r'), tr')"
    using retry_loop_returns_record [where a = 0 and n = "nat retries" and prov = prov and title = title]
      n assms by blast
  then show "returns_record (fst (get_trends_data prov now title ban_date_str retries))"
    using g r by (simp add: py_range_def)
next
  fix D
  assume d: "strptime ban_date_str = Some D \<and> 90 < D \<and> D + 90 \<le> MAXORDINAL"
    and "retries \<le> 0"
  then show "fst (get_trends_data prov now title ban_date_str retries) = Inr None"
    using get_trends_data_valid(2) [of ban_date_str D prov now title retries]
    by (simp add: py_range_def)
qed

theorem get_trends_data_outcome_witness:
  "returns_record (fst (get_trends_data provider_down ''T'' ''Example Book'' ''2022-09-01'' 3)) \<and>
   fst (get_trends_data provider_down ''T'' ''Example Book'' ''2022-13-40'' 3) = Inr None"
  using get_trends_data_outcome [of provider_down "''Example Book''" "''2022-09-01''" "''T''" 3]
    get_trends_data_outcome [of provider_down "''Example Book''" "''2022-13-40''" "''T''" 3]
    strptime_example strptime_malformed
  by (simp add: provider_down_def MAXORDINAL_def)

text \<open>
  The claim as stated promises a dictionary from every call. None is returned for a text
  that does not parse and for an attempt budget of 0; the date 0001-01-15 and an
  interrupted request each let an exception out of the function.
\<close>

theorem get_trends_data_without_record:
  "\<not> returns_record (fst (get_trends_data provider_scenario ''T'' ''Example Book'' ''2022-13-40'' 3)) \<and>
   \<not> returns_record (fst (get_trends_data provider_scenario ''T'' ''Example Book'' ''2022-09-01'' 0)) \<and>
   fst (get_trends_data provider_scenario ''T'' ''Example Book'' ''0001-01-15'' 3) =
     Inl (OverflowError ''date value out of range'') \<and>
   fst (get_trends_data provider_interrupted ''T'' ''Example Book'' ''2022-09-01'' 3) =
     Inl (OtherException False ''KeyboardInterrupt'')"
proof -
  have "fst (get_trends_data provider_scenario ''T'' ''Example Book'' ''2022-13-40'' 3) = Inr None"
    by (simp add: get_trends_data_def strptime_malformed)
  then show ?thesis
    by (simp add: run_no_attempts run_year_one run_interrupted)
qed

subsection \<open>C8: numeric fields are all present or all absent\<close>

text \<open>
  Claim C8. For every dictionary that \<open>get_trends_data\<close> returns, the flag
  \<open>collection_successful\<close> is true if and only if all nine numeric fields (the two
  averages, maxima and minima, \<open>percent_change\<close>, \<open>absolute_change\<close> and \<open>volatility\<close>) are
  present, and false if and only if all nine are absent and an error text is attached;
  the fields are never partly present.
\<close>

theorem result_all_or_nothing:
  assumes "fst (get_trends_data prov now title ban_date_str retries) = Inr (Some r)"
  shows "(collection_successful r \<longleftrightarrow> all_numeric_present r) \<and>
         (\<not> collection_successful r \<longleftrightarrow> all_numeric_absent r \<and> error r \<noteq> None) \<and>
         (all_numeric_present r \<or> all_numeric_absent r) \<and>
         (collection_successful r \<longleftrightarrow> error r = None)"
proof -
  obtain btf atf xs lc tr tr' where
    "retry_loop prov now title ban_date_str btf atf retries xs lc tr = (Inr (Some r), tr')"
    using assms
    by (cases "get_trends_data prov now title ban_date_str retries")
       (auto simp: get_trends_data_def split: option.splits sum.splits prod.splits)
  from retry_loop_result_shape [OF this]
  show ?thesis
    by (auto simp: success_result_def failure_result_def all_numeric_present_def
          all_numeric_absent_def)
qed

theorem result_all_or_nothing_witness:
  "fst (get_trends_data provider_down ''T'' ''Example Book'' ''2022-09-01'' 3) =
     Inr (Some (failure_result ''Example Book'' ''2022-09-01''
                  (OtherException True ''timeout, request 2'') ''T'')) \<and>
   \<not> collection_successful (failure_result ''Example Book'' ''2022-09-01''
                  (OtherException True ''timeout, request 2'') ''T'') \<and>
   all_numeric_absent (failure_result ''Example Book'' ''2022-09-01''
                  (OtherException True ''timeout, request 2'') ''T'') \<and>
   fst (get_trends_data provider_scenario ''T'' ''Example Book'' ''2022-09-01'' 3) =
     Inr (Some (success_result ''Example Book'' ''2022-09-01'' 20 50 30 60 10 40
                   (Finite 150) 30 (np_std [10, 20, 30, 40, 50, 60]) ''T'')) \<and>
   collection_successful (success_result ''Example Book'' ''2022-09-01'' 20 50 30 60 10 40
                   (Finite 150) 30 (np_std [10, 20, 30, 40, 50, 60]) ''T'') \<and>
   all_numeric_present (success_result ''Example Book'' ''2022-09-01'' 20 50 30 60 10 40
                   (Finite 150) 30 (np_std [10, 20, 30, 40, 50, 60]) ''T'')"
proof -
  have d: "fst (get_trends_data provider_down ''T'' ''Example Book'' ''2022-09-01'' 3) =
     Inr (Some (failure_result ''Example Book'' ''2022-09-01''
                  (OtherException True ''timeout, request 2'') ''T''))"
    by (simp add: run_down)
  have s: "fst (get_trends_data provider_scenario ''T'' ''Example Book'' ''2022-09-01'' 3) =
     Inr (Some (success_result ''Example Book'' ''2022-09-01'' 20 50 30 60 10 40
                   (Finite 150) 30 (np_std [10, 20, 30, 40, 50, 60]) ''T''))"
    by (simp add: run_scenario)
  have fd: "\<not> collection_successful (failure_result ''Example Book'' ''2022-09-01''
                  (OtherException True ''timeout, request 2'') ''T'')"
    by (simp add: failure_result_def)
  have fs: "collection_successful (success_result ''Example Book'' ''2022-09-01'' 20 50 30 60 10 40
                   (Finite 150) 30 (np_std [10, 20, 30, 40, 50, 60]) ''T'')"
    by (simp add: success_result_def)
  show ?thesis
    using result_all_or_nothing [OF d] result_all_or_nothing [OF s] d s fd fs by blast
qed

subsection \<open>C3: an empty response for a window\<close>

text \<open>
  Claim C3 says that an attempt whose provider response for a window holds no
  observation still completes as a success with that window's average, maximum and
  minimum 0, and that the empty response triggers no retry. The comment of line 103 and
  the branch of line 110 say the same. The code does not do it: with no data for the
  before window and scores 40, 50, 60 for the after window, on every attempt, line 110
  sets the three statistics to 0 but leaves \<open>before_values\<close> unbound, line 136 raises
  \<open>UnboundLocalError\<close>, the handler of line 157 retries twice with the long delay, and
  the call returns the failure dictionary carrying that error.
\<close>

theorem empty_before_window_run:
  "provider_empty_before 0 ''Example Book'' ''2022-06-03 2022-08-31'' =
     Inr \<lparr> n_rows = 0, columns = [] \<rparr> \<and>
   provider_empty_before 1 ''Example Book'' ''2022-09-02 2022-11-30'' =
     Inr (scores_frame ''Example Book'' [40, 50, 60]) \<and>
   fst (get_trends_data provider_empty_before ''T'' ''Example Book'' ''2022-09-01'' 3) =
     Inr (Some (failure_result ''Example Book'' ''2022-09-01''
                  (UnboundLocalError ''before_values'') ''T'')) \<and>
   long_delays (snd (get_trends_data provider_empty_before ''T'' ''Example Book'' ''2022-09-01'' 3)) = 2 \<and>
   requests_made (snd (get_trends_data provider_empty_before ''T'' ''Example Book'' ''2022-09-01'' 3)) = 6"
  by (simp add: run_empty_before provider_empty_before_def scores_frame_def)

subsection \<open>C4: an empty response while the values variable is unbound\<close>

text \<open>
  Claim C4, as the code has it. Take an attempt in which the response for a window is
  empty or lacks the subject's column (\<open>no_data\<close>) while the values variable of that window
  is still unbound, as it always is on the first attempt. Such an attempt never produces a
  success dictionary: it ends in an exception. When both requests return and the other
  window's statistics are computed, that exception is the \<open>UnboundLocalError\<close> (a
  \<open>NameError\<close>) of line 136. It derives from \<open>Exception\<close>, so the handler of line 157
  treats it like a provider error: it waits 20 units and retries when attempts remain, and
  returns the failure dictionary with its text otherwise.
\<close>

theorem unbound_values_attempt_fails:
  assumes "prov (requests_made tr) title btf = Inr bdf"
  shows "(no_data title bdf \<and> before_values lc = None \<longrightarrow>
            (\<exists>e lc' tr'. attempt_round prov now title ds btf atf lc tr = (Inl e, lc', tr')) \<and>
            (\<forall>adf av st.
               prov (Suc (requests_made tr)) title atf = Inr adf \<and>
               window_stats title adf (after_values lc) = (av, Inr st) \<longrightarrow>
               (\<exists>lc' tr'. attempt_round prov now title ds btf atf lc tr =
                  (Inl (UnboundLocalError ''before_values''), lc', tr')))) \<and>
         (\<forall>adf bv st.
            window_stats title bdf (before_values lc) = (bv, Inr st) \<and>
            prov (Suc (requests_made tr)) title atf = Inr adf \<and>
            no_data title adf \<and> after_values lc = None \<longrightarrow>
            (\<exists>lc' tr'. attempt_round prov now title ds btf atf lc tr =
               (Inl (UnboundLocalError (if bv = None then ''before_values'' else ''after_values'')),
                lc', tr'))) \<and>
         (\<forall>v lc' tr' attempt rest.
            attempt_round prov now title ds btf atf lc tr = (Inl (UnboundLocalError v), lc', tr') \<longrightarrow>
            is_Exception (UnboundLocalError v) \<and>
            retry_loop prov now title ds btf atf retries (attempt # rest) lc tr =
              (if attempt < retries - 1
               then retry_loop prov now title ds btf atf retries rest lc'
                      (tr' @ [LogWarning (''Attempt '' @ str_int (attempt + 1) @ '' failed for '' @
                                title @ '': '' @ str_exn (UnboundLocalError v) @ ''. Retrying...''),
                              Sleep 20])
               else (Inr (Some (failure_result title ds (UnboundLocalError v) now)),
                     tr' @ [LogError (''All attempts failed for '' @ title @ '': '' @
                                      str_exn (UnboundLocalError v))])))"
proof (intro conjI allI impI)
  assume a: "no_data title bdf \<and> before_values lc = None"
  show "\<exists>e lc' tr'. attempt_round prov now title ds btf atf lc tr = (Inl e, lc', tr')"
    using attempt_round_unbound_before(1) [where prov = prov and tr = tr and title = title and btf = btf and bdf = bdf and lc = lc] assms a by blast
next
  fix adf av st
  assume a: "no_data title bdf \<and> before_values lc = None"
    and b: "prov (Suc (requests_made tr)) title atf = Inr adf \<and>
            window_stats title adf (after_values lc) = (av, Inr st)"
  show "\<exists>lc' tr'. attempt_round prov now title ds btf atf lc tr =
          (Inl (UnboundLocalError ''before_values''), lc', tr')"
    using attempt_round_unbound_before(2) [where prov = prov and tr = tr and title = title and btf = btf and bdf = bdf and lc = lc] assms a b by blast
next
  fix adf bv st
  assume "window_stats title bdf (before_values lc) = (bv, Inr st) \<and>
          prov (Suc (requests_made tr)) title atf = Inr adf \<and>
          no_data title adf \<and> after_values lc = None"
  then show "\<exists>lc' tr'. attempt_round prov now title ds btf atf lc tr =
               (Inl (UnboundLocalError (if bv = None then ''before_values'' else ''after_values'')),
                lc', tr')"
    using attempt_round_unbound_after [where prov = prov and tr = tr and title = title and btf = btf and bdf = bdf and lc = lc] assms by blast
next
  fix v :: string
  show "is_Exception (UnboundLocalError v)" by simp
next
  fix v lc' tr' attempt rest
  assume "attempt_round prov now title ds btf atf lc tr = (Inl (UnboundLocalError v), lc', tr')"
  then show "retry_loop prov now title ds btf atf retries (attempt # rest) lc tr =
              (if attempt < retries - 1
               then retry_loop prov now title ds btf atf retries rest lc'
                      (tr' @ [LogWarning (''Attempt '' @ str_int (attempt + 1) @ '' failed for '' @
                                title @ '': '' @ str_exn (UnboundLocalError v) @ ''. Retrying...''),
                              Sleep 20])
               else (Inr (Some (failure_result title ds (UnboundLocalError v) now)),
                     tr' @ [LogError (''All attempts failed for '' @ title @ '': '' @
                                      str_exn (UnboundLocalError v))]))"
    using retry_loop_handler [of prov now title ds btf atf lc tr "UnboundLocalError v" lc' tr']
    by simp
qed

theorem unbound_values_attempt_fails_witness:
  "provider_empty_before (requests_made []) ''Example Book'' ''2022-06-03 2022-08-31'' =
     Inr \<lparr> n_rows = 0, columns = [] \<rparr> \<and>
   no_data ''Example Book'' \<lparr> n_rows = 0, columns = [] \<rparr> \<and>
   before_values no_locals = None \<and>
   attempt_round provider_empty_before ''T'' ''Example Book'' ''2022-09-01''
       ''2022-06-03 2022-08-31'' ''2022-09-02 2022-11-30'' no_locals [] =
     (Inl (UnboundLocalError ''before_values''),
      \<lparr> before_values = None, after_values = Some [40, 50, 60] \<rparr>,
      [Request ''Example Book'' ''2022-06-03 2022-08-31'', Sleep 12,
       Request ''Example Book'' ''2022-09-02 2022-11-30''])"
proof -
  have p: "provider_empty_before (requests_made []) ''Example Book'' ''2022-06-03 2022-08-31'' =
     Inr \<lparr> n_rows = 0, columns = [] \<rparr>"
    by (simp add: provider_empty_before_def scores_frame_def)
  have nd: "no_data ''Example Book'' \<lparr> n_rows = 0, columns = [] \<rparr>"
    by (simp add: no_data_def df_empty_def)
  have ub: "before_values no_locals = None" by (simp add: no_locals_def)
  have "\<exists>e lc' tr'. attempt_round provider_empty_before ''T'' ''Example Book'' ''2022-09-01''
       ''2022-06-03 2022-08-31'' ''2022-09-02 2022-11-30'' no_locals [] = (Inl e, lc', tr')"
    using unbound_values_attempt_fails [where prov = provider_empty_before and tr = "[]"
        and title = "''Example Book''" and btf = "''2022-06-03 2022-08-31''"
        and bdf = "\<lparr> n_rows = 0, columns = [] \<rparr>" and lc = no_locals and now = "''T''"
        and ds = "''2022-09-01''" and atf = "''2022-09-02 2022-11-30''" and retries = 3] p nd ub
    by blast
  moreover have "fst (snd (attempt_round provider_empty_before ''T'' ''Example Book'' ''2022-09-01''
       ''2022-06-03 2022-08-31'' ''2022-09-02 2022-11-30'' no_locals [])) =
        \<lparr> before_values = None, after_values = Some [40, 50, 60] \<rparr>"
    by (simp add: run_example provider_empty_before_def)
  moreover have "snd (snd (attempt_round provider_empty_before ''T'' ''Example Book'' ''2022-09-01''
       ''2022-06-03 2022-08-31'' ''2022-09-02 2022-11-30'' no_locals [])) =
        [Request ''Example Book'' ''2022-06-03 2022-08-31'', Sleep 12,
         Request ''Example Book'' ''2022-09-02 2022-11-30'']"
    by (simp add: run_example provider_empty_before_def)
  moreover have "fst (attempt_round provider_empty_before ''T'' ''Example Book'' ''2022-09-01''
       ''2022-06-03 2022-08-31'' ''2022-09-02 2022-11-30'' no_locals []) =
         Inl (UnboundLocalError ''before_values'')"
    by (simp add: run_example provider_empty_before_def)
  ultimately show ?thesis using p nd ub
    by (metis prod.collapse)
qed

text \<open>
  The claim as stated covers every attempt with an empty response, and says that none can
  produce a success dictionary. The variables \<open>before_values\<close> and \<open>after_values\<close> keep
  the binding of an earlier attempt of the same call. With \<open>provider_stale\<close> the first
  attempt binds \<open>before_values\<close> to 10, 20, 30 and fails on its second request; in the
  second attempt the before window's response (request number 2) is empty, and the
  attempt returns a success dictionary.
\<close>

theorem empty_response_after_retry_succeeds:
  "provider_stale 2 ''Example Book'' ''2022-06-03 2022-08-31'' =
     Inr \<lparr> n_rows = 0, columns = [] \<rparr> \<and>
   get_trends_data provider_stale ''T'' ''Example Book'' ''2022-09-01'' 3 =
     (Inr (Some (success_result ''Example Book'' ''2022-09-01'' 0 50 0 60 0 40
                   Infinity 50 (np_std [10, 20, 30, 40, 50, 60]) ''T'')),
      [Request ''Example Book'' ''2022-06-03 2022-08-31'', Sleep 12,
       Request ''Example Book'' ''2022-09-02 2022-11-30'',
       LogWarning ''Attempt 1 failed for Example Book: throttled. Retrying...'',
       Sleep 20,
       Request ''Example Book'' ''2022-06-03 2022-08-31'', Sleep 12,
       Request ''Example Book'' ''2022-09-02 2022-11-30'',
       LogInfo ''Successfully collected data for: Example Book'']) \<and>
   collection_successful (success_result ''Example Book'' ''2022-09-01'' 0 50 0 60 0 40
                   Infinity 50 (np_std [10, 20, 30, 40, 50, 60]) ''T'')"
  by (simp add: run_stale provider_stale_def scores_frame_def success_result_def)

end
